theory Spec2Isabelle
  imports Complex_Main "HOL-Library.Word" "HOL-Library.Sublist"
begin

section \<open>Strings\<close>

text \<open>
  A JavaScript string is a sequence of UTF-16 code units. The string constants of the
  source that are not ASCII are written out as their code units.
\<close>

type_synonym jsstring = "16 word list"

definition ascii :: "string \<Rightarrow> jsstring" where
  "ascii s = map of_char s"

text \<open>
  The code units that \<^verbatim>\<open>String.prototype.trim\<close> strips: the WhiteSpace and
  LineTerminator productions of ECMAScript.
\<close>

definition whiteSpace :: "16 word list" where
  "whiteSpace =
     [0x09, 0x0A, 0x0B, 0x0C, 0x0D, 0x20, 0xA0, 0x1680,
      0x2000, 0x2001, 0x2002, 0x2003, 0x2004, 0x2005, 0x2006, 0x2007, 0x2008, 0x2009, 0x200A,
      0x2028, 0x2029, 0x202F, 0x205F, 0x3000, 0xFEFF]"

definition isWhiteSpace :: "16 word \<Rightarrow> bool" where
  "isWhiteSpace c = (c \<in> set whiteSpace)"

definition trimStart :: "jsstring \<Rightarrow> jsstring" where
  "trimStart s = dropWhile isWhiteSpace s"

definition trimEnd :: "jsstring \<Rightarrow> jsstring" where
  "trimEnd s = rev (dropWhile isWhiteSpace (rev s))"

definition trim :: "jsstring \<Rightarrow> jsstring" where
  "trim s = trimEnd (trimStart s)"

text \<open>The \<^verbatim>\<open>||\<close> of two strings: the empty string is the only falsy one.\<close>

definition orString :: "jsstring \<Rightarrow> jsstring \<Rightarrow> jsstring" where
  "orString a b = (if a \<noteq> [] then a else b)"

text \<open>\<^verbatim>\<open>s.replace(/\/$/, '')\<close>: the pattern matches one slash at the end of the string.\<close>

definition slash :: "16 word" where
  "slash = 0x2F"

definition stripTrailingSlash :: "jsstring \<Rightarrow> jsstring" where
  "stripTrailingSlash s = (if s \<noteq> [] \<and> last s = slash then butlast s else s)"

text \<open>A non-negative integer in a template literal: its decimal digits.\<close>

fun decimal :: "nat \<Rightarrow> jsstring" where
  "decimal n =
     (if n < 10 then [0x30 + of_nat n]
      else decimal (n div 10) @ [0x30 + of_nat (n mod 10)])"

text \<open>
  \<^verbatim>\<open>xs.slice(start)\<close>: a negative start counts from the end, and both are clamped to the
  array.
\<close>

definition slice :: "int \<Rightarrow> 'a list \<Rightarrow> 'a list" where
  "slice start xs =
     (let len = int (length xs);
          k = (if start < 0 then max (len + start) 0 else min start len)
      in drop (nat k) xs)"

section \<open>The settings store (ai-settings-storage.ts)\<close>

record AiSettings =
  apiKey :: jsstring
  baseUrl :: jsstring
  includeContextByDefault :: bool

text \<open>
  \<^verbatim>\<open>Partial<AiSettings>\<close>: every key may be absent; a key that is present holds a
  value of its field's type.
\<close>

record AiSettingsPartial =
  p_apiKey :: "jsstring option"
  p_baseUrl :: "jsstring option"
  p_includeContextByDefault :: "bool option"

definition defaultSettings :: AiSettings where
  "defaultSettings = \<lparr>apiKey = [], baseUrl = [], includeContextByDefault = True\<rparr>"

text \<open>The object spread \<^verbatim>\<open>{...current, ...updates}\<close>: a key of \<open>updates\<close> wins.\<close>

definition spread :: "AiSettings \<Rightarrow> AiSettingsPartial \<Rightarrow> AiSettings" where
  "spread current updates =
     \<lparr>apiKey = (case p_apiKey updates of Some v \<Rightarrow> v | None \<Rightarrow> apiKey current),
      baseUrl = (case p_baseUrl updates of Some v \<Rightarrow> v | None \<Rightarrow> baseUrl current),
      includeContextByDefault =
        (case p_includeContextByDefault updates of Some v \<Rightarrow> v
         | None \<Rightarrow> includeContextByDefault current)\<rparr>"

text \<open>A complete record passed where a partial one is accepted.\<close>

definition allKeys :: "AiSettings \<Rightarrow> AiSettingsPartial" where
  "allKeys s =
     \<lparr>p_apiKey = Some (apiKey s), p_baseUrl = Some (baseUrl s),
      p_includeContextByDefault = Some (includeContextByDefault s)\<rparr>"

text \<open>
  The persisted state of the store: the record under the key \<^verbatim>\<open>ai-settings\<close>, or
  nothing when the store has never been read or written.
\<close>

type_synonym Storage = "AiSettings option"

datatype SetArg = Partial AiSettingsPartial | Updater "AiSettings \<Rightarrow> AiSettings"

text \<open>
  Modelled from the spec: \<^verbatim>\<open>get\<close> of the store that \<^verbatim>\<open>createStorage\<close> returns;
  \<^verbatim>\<open>createStorage\<close> (\<^verbatim>\<open>../base/index.js\<close>) is not among the source files. The spec
  (4.1): \<^verbatim>\<open>get()\<close> returns current settings (materializing defaults on first access).
\<close>

definition storage_get :: "Storage \<Rightarrow> AiSettings \<times> Storage" where
  "storage_get st =
     (case st of None \<Rightarrow> (defaultSettings, Some defaultSettings) | Some v \<Rightarrow> (v, Some v))"

text \<open>
  Modelled from the spec: \<^verbatim>\<open>set\<close> of the same store, absent with \<^verbatim>\<open>createStorage\<close>.
  The spec (4.1): \<^verbatim>\<open>set(partialOrUpdater)\<close> merges fields. A partial record is merged
  over the current settings; an updater is applied to the current settings and its
  result, a complete record, takes their place.
\<close>

definition storage_set :: "SetArg \<Rightarrow> Storage \<Rightarrow> Storage" where
  "storage_set arg st =
     (let current = fst (storage_get st)
      in case arg of
           Partial p \<Rightarrow> Some (spread current p)
         | Updater f \<Rightarrow> Some (f current))"

text \<open>\<^verbatim>\<open>reset\<close> and \<^verbatim>\<open>update\<close> of \<^verbatim>\<open>aiSettingsStorage\<close>.\<close>

definition reset :: "Storage \<Rightarrow> Storage" where
  "reset st = storage_set (Partial (allKeys defaultSettings)) st"

definition update :: "AiSettingsPartial \<Rightarrow> Storage \<Rightarrow> Storage" where
  "update updates st = storage_set (Updater (\<lambda>current. spread current updates)) st"

section \<open>Values read from a response\<close>

text \<open>
  \<^verbatim>\<open>response.json()\<close> is typed \<^verbatim>\<open>any\<close>: the value may be any JSON value, and what
  \<^verbatim>\<open>handleSend\<close> reads from it becomes the content of a message unchecked. A number
  parsed from JSON is a finite double (a rational, both zeros being falsy) or an infinity
  (from a literal too large for a double). The properties of an object are held as a list
  in which each name occurs once.
\<close>

datatype jsnumber = Finite rat | Infinity bool

datatype jsval =
    JNull
  | JBool bool
  | JNum jsnumber
  | JStr jsstring
  | JArr "jsval list"
  | JObj "(jsstring \<times> jsval) list"

fun truthy :: "jsval \<Rightarrow> bool" where
  "truthy JNull = False"
| "truthy (JBool b) = b"
| "truthy (JNum (Finite q)) = (q \<noteq> 0)"
| "truthy (JNum (Infinity _)) = True"
| "truthy (JStr s) = (s \<noteq> [])"
| "truthy (JArr _) = True"
| "truthy (JObj _) = True"

text \<open>
  \<^verbatim>\<open>data?.k\<close> for a property name \<open>k\<close> that no prototype defines (\<^verbatim>\<open>reply\<close>,
  \<^verbatim>\<open>message\<close>): \<open>None\<close> is \<^verbatim>\<open>undefined\<close>.
\<close>

definition optField :: "jsval \<Rightarrow> jsstring \<Rightarrow> jsval option" where
  "optField d k = (case d of JObj props \<Rightarrow> map_of props k | _ \<Rightarrow> None)"

text \<open>\<^verbatim>\<open>a || b\<close>, where \<open>None\<close> is \<^verbatim>\<open>undefined\<close>.\<close>

definition orValue :: "jsval option \<Rightarrow> jsval option \<Rightarrow> jsval option" where
  "orValue a b = (case a of Some v \<Rightarrow> (if truthy v then Some v else b) | None \<Rightarrow> b)"

section \<open>The sidebar (App)\<close>

record PageContext =
  pc_title :: jsstring
  pc_url :: jsstring
  pc_text :: jsstring
  pc_preview :: jsstring

datatype Role = User | Assistant

record ChatMessage =
  msg_id :: jsstring
  role :: Role
  content :: jsval
  createdAt :: int
  usingContext :: bool

record TooltipState =
  tt_text :: jsstring
  tt_x :: rat
  tt_y :: rat

record Attachment =
  att_id :: jsstring
  att_name :: jsstring
  att_dataUrl :: jsstring

datatype Intent = Chat | Translate | Like

text \<open>The component's state, and the \<^verbatim>\<open>settings\<close> it reads from the store.\<close>

record AppState =
  settings :: AiSettings
  sidebarOpen :: bool
  pageContext :: "PageContext option"
  includeContext :: bool
  messages :: "ChatMessage list"
  input :: jsstring
  isSending :: bool
  tooltip :: "TooltipState option"
  attachments :: "Attachment list"
  inlineApiKey :: jsstring
  inlineBaseUrl :: jsstring
  savingSettings :: bool
  selectionMeta :: jsstring
  messagesRef :: "ChatMessage list"

subsection \<open>The request\<close>

record HistoryEntry =
  h_role :: Role
  h_content :: jsval

record AttachmentMeta =
  am_name :: jsstring
  am_dataUrl :: jsstring

record ContextPayload =
  cp_title :: jsstring
  cp_url :: jsstring
  cp_text :: jsstring
  cp_preview :: jsstring
  cp_attachments :: "AttachmentMeta list"

record Payload =
  message :: jsstring
  history :: "HistoryEntry list"
  contextPayload :: "ContextPayload option"

text \<open>The arguments of \<^verbatim>\<open>fetch\<close>; \<open>body\<close> is the payload that is serialised.\<close>

record Request =
  url :: jsstring
  httpMethod :: jsstring
  headers :: "(jsstring \<times> jsstring) list"
  body :: Payload

text \<open>
  What the awaited \<^verbatim>\<open>fetch\<close> and \<^verbatim>\<open>response.json()\<close> come to: a rejection with
  the error's message, or a response with its status and its body, which parses as JSON
  or is rejected with a message.
\<close>

datatype BodyOutcome = NotJson jsstring | Json jsval

datatype FetchOutcome = Rejected jsstring | Response nat BodyOutcome

text \<open>The values \<^verbatim>\<open>crypto.randomUUID()\<close> and \<^verbatim>\<open>Date.now()\<close> return to one call.\<close>

record Env =
  userId :: jsstring
  userNow :: int
  assistantId :: jsstring
  assistantNow :: int

subsection \<open>String constants of the source\<close>

definition notConfigured :: jsstring where
  "notConfigured =
     [0x5DF2, 0x8BB0, 0x5F55, 0x4F60, 0x7684, 0x95EE, 0x9898, 0xFF0C, 0x4F46, 0x8FD8, 0x6CA1,
      0x6709, 0x914D, 0x7F6E, 0x20, 0x41, 0x50, 0x49, 0x20, 0x4B, 0x65, 0x79, 0x20, 0x4E0E,
      0x20, 0x42, 0x61, 0x73, 0x65, 0x20, 0x55, 0x52, 0x4C, 0x3002, 0x8BF7, 0x5148, 0x5728,
      0x4FA7, 0x8FB9, 0x680F, 0x6216, 0x20, 0x4F, 0x70, 0x74, 0x69, 0x6F, 0x6E, 0x73, 0x20,
      0x9875, 0x9762, 0x586B, 0x5165, 0x540E, 0x518D, 0x8BD5, 0x4E00, 0x6B21, 0x3002]"

definition placeholder :: jsstring where
  "placeholder =
     [0x5BF9, 0x8BDD, 0x5DF2, 0x53D1, 0x9001, 0x5230, 0x4F60, 0x7684, 0x6A21, 0x578B, 0xFF0C,
      0x8BF7, 0x6839, 0x636E, 0x540E, 0x7AEF, 0x8FD4, 0x56DE, 0x7ED3, 0x6784, 0x8C03, 0x6574,
      0x53D6, 0x503C, 0x5B57, 0x6BB5, 0x3002]"

definition requestFailed :: jsstring where
  "requestFailed = [0x8BF7, 0x6C42, 0x5931, 0x8D25, 0x3A, 0x20]"

definition translateTemplate :: jsstring where
  "translateTemplate =
     [0x8BF7, 0x628A, 0x4E0B, 0x9762, 0x7684, 0x6587, 0x5B57, 0x7FFB, 0x8BD1, 0x6210, 0x4E2D,
      0x6587, 0x5E76, 0x4FDD, 0x7559, 0x5173, 0x952E, 0x4FE1, 0x606F, 0xFF1A, 0x0A]"

definition likeTemplate :: jsstring where
  "likeTemplate =
     [0x9488, 0x5BF9, 0x8FD9, 0x6BB5, 0x8BDD, 0x7ED9, 0x51FA, 0x4E00, 0x53E5, 0x9F13, 0x52B1,
      0x6216, 0x70B9, 0x8D5E, 0xFF1A, 0x0A]"

subsection \<open>handleSend\<close>

definition promptOf :: "jsstring option \<Rightarrow> AppState \<Rightarrow> jsstring" where
  "promptOf rawText st = trim (case rawText of Some t \<Rightarrow> t | None \<Rightarrow> input st)"

definition usingContextOf :: "AppState \<Rightarrow> bool" where
  "usingContextOf st = (includeContext st \<and> pageContext st \<noteq> None)"

definition userMessageOf :: "Env \<Rightarrow> jsstring \<Rightarrow> AppState \<Rightarrow> ChatMessage" where
  "userMessageOf env prompt st =
     \<lparr>msg_id = userId env, role = User, content = JStr prompt, createdAt = userNow env,
      usingContext = usingContextOf st\<rparr>"

definition effectiveApiKey :: "AppState \<Rightarrow> jsstring" where
  "effectiveApiKey st = trim (orString (inlineApiKey st) (apiKey (settings st)))"

definition effectiveBaseUrl :: "AppState \<Rightarrow> jsstring" where
  "effectiveBaseUrl st = trim (orString (inlineBaseUrl st) (baseUrl (settings st)))"

definition contextPayloadOf :: "AppState \<Rightarrow> ContextPayload option" where
  "contextPayloadOf st =
     (if usingContextOf st then
        (case pageContext st of
           Some pc \<Rightarrow>
             Some \<lparr>cp_title = pc_title pc, cp_url = pc_url pc, cp_text = pc_text pc,
                   cp_preview = pc_preview pc,
                   cp_attachments =
                     map (\<lambda>file. \<lparr>am_name = att_name file, am_dataUrl = att_dataUrl file\<rparr>)
                       (attachments st)\<rparr>
         | None \<Rightarrow> None)
      else None)"

definition payloadOf :: "Env \<Rightarrow> jsstring \<Rightarrow> AppState \<Rightarrow> Payload" where
  "payloadOf env prompt st =
     \<lparr>message = prompt,
      history =
        map (\<lambda>m. \<lparr>h_role = role m, h_content = content m\<rparr>)
          (slice (- 6) (messagesRef st @ [userMessageOf env prompt st])),
      contextPayload = contextPayloadOf st\<rparr>"

definition requestOf :: "jsstring \<Rightarrow> jsstring \<Rightarrow> Payload \<Rightarrow> Request" where
  "requestOf key base payload =
     \<lparr>url = stripTrailingSlash base @ ascii ''/chat'',
      httpMethod = ascii ''POST'',
      headers =
        [(ascii ''Content-Type'', ascii ''application/json''),
         (ascii ''Authorization'', ascii ''Bearer '' @ key)],
      body = payload\<rparr>"

text \<open>\<^verbatim>\<open>data?.reply || data?.message || '...'\<close>.\<close>

definition replyContent :: "jsval \<Rightarrow> jsval" where
  "replyContent data =
     (case orValue (orValue (optField data (ascii ''reply'')) (optField data (ascii ''message'')))
             (Some (JStr placeholder)) of
        Some v \<Rightarrow> v
      | None \<Rightarrow> JStr placeholder)"

text \<open>The \<^verbatim>\<open>try\<close> block of \<^verbatim>\<open>handleSend\<close> after the awaits, with its \<^verbatim>\<open>catch\<close>.\<close>

definition assistantContentOf :: "FetchOutcome \<Rightarrow> jsval" where
  "assistantContentOf outcome =
     (case outcome of
        Rejected msg \<Rightarrow> JStr (requestFailed @ msg)
      | Response status b \<Rightarrow>
          (if \<not> (200 \<le> status \<and> status \<le> 299)
           then JStr (requestFailed @ ascii ''HTTP '' @ decimal status)
           else (case b of
                   NotJson msg \<Rightarrow> JStr (requestFailed @ msg)
                 | Json data \<Rightarrow> replyContent data)))"

definition appendAssistant :: "Env \<Rightarrow> jsval \<Rightarrow> bool \<Rightarrow> AppState \<Rightarrow> AppState" where
  "appendAssistant env assistantContent ctx st =
     st\<lparr>messages :=
          messages st @
            [\<lparr>msg_id = assistantId env, role = Assistant, content = assistantContent,
              createdAt = assistantNow env, usingContext = ctx\<rparr>],
        isSending := False\<rparr>"

text \<open>
  \<^verbatim>\<open>handleSend\<close> up to its first \<^verbatim>\<open>await\<close>: it returns early, or runs to its end
  without a request, or has issued the request and waits, holding whether a context
  went with it.
\<close>

datatype Started =
    EarlyReturn
  | Completed AppState
  | Awaiting AppState Request bool

definition handleSend_start :: "Env \<Rightarrow> jsstring option \<Rightarrow> AppState \<Rightarrow> Started" where
  "handleSend_start env rawText st =
     (let prompt = promptOf rawText st in
      if prompt = [] then EarlyReturn
      else
        let userMessage = userMessageOf env prompt st;
            st1 = st\<lparr>messages := messages st @ [userMessage], input := [],
                     isSending := True, sidebarOpen := True\<rparr>;
            key = effectiveApiKey st;
            base = effectiveBaseUrl st;
            payload = payloadOf env prompt st;
            ctx = (contextPayload payload \<noteq> None)
        in if key \<noteq> [] \<and> base \<noteq> []
           then Awaiting st1 (requestOf key base payload) ctx
           else Completed (appendAssistant env (JStr notConfigured) ctx st1))"

text \<open>The rest of \<^verbatim>\<open>handleSend\<close>, run in the state the component has by then.\<close>

definition handleSend_resume :: "Env \<Rightarrow> FetchOutcome \<Rightarrow> bool \<Rightarrow> AppState \<Rightarrow> AppState" where
  "handleSend_resume env outcome ctx st = appendAssistant env (assistantContentOf outcome) ctx st"

text \<open>
  One call of \<^verbatim>\<open>handleSend\<close> that nothing interleaves with, against a network that
  answers a request with \<open>fetch\<close>: the final state and the requests issued.
\<close>

definition handleSend ::
  "(Request \<Rightarrow> FetchOutcome) \<Rightarrow> Env \<Rightarrow> jsstring option \<Rightarrow> AppState \<Rightarrow> AppState \<times> Request list"
where
  "handleSend fetch env rawText st =
     (case handleSend_start env rawText st of
        EarlyReturn \<Rightarrow> (st, [])
      | Completed st' \<Rightarrow> (st', [])
      | Awaiting st' req ctx \<Rightarrow> (handleSend_resume env (fetch req) ctx st', [req]))"

subsection \<open>onTooltipAction and removeAttachment\<close>

definition tooltipPrompt :: "Intent \<Rightarrow> jsstring \<Rightarrow> jsstring" where
  "tooltipPrompt intent base =
     (if intent = Translate then translateTemplate @ base
      else if intent = Like then likeTemplate @ base
      else base)"

definition onTooltipAction ::
  "(Request \<Rightarrow> FetchOutcome) \<Rightarrow> Env \<Rightarrow> Intent \<Rightarrow> AppState \<Rightarrow> AppState \<times> Request list"
where
  "onTooltipAction fetch env intent st =
     (case tooltip st of
        None \<Rightarrow> (st, [])
      | Some t \<Rightarrow>
          if tt_text t = [] then (st, [])
          else
            let base = trim (tt_text t);
                prompt = tooltipPrompt intent base
            in handleSend fetch env (Some prompt) (st\<lparr>sidebarOpen := True, tooltip := None\<rparr>))"

definition removeAttachment :: "jsstring \<Rightarrow> AppState \<Rightarrow> AppState" where
  "removeAttachment i st =
     st\<lparr>attachments := filter (\<lambda>item. att_id item \<noteq> i) (attachments st)\<rparr>"

subsection \<open>The initial state and example inputs\<close>

text \<open>The state of the component when it mounts: the initial values of its hooks.\<close>

definition initialState :: "AiSettings \<Rightarrow> AppState" where
  "initialState s =
     \<lparr>settings = s, sidebarOpen = False, pageContext = None,
      includeContext = includeContextByDefault s, messages = [], input = [],
      isSending = False, tooltip = None, attachments = [], inlineApiKey = apiKey s,
      inlineBaseUrl = baseUrl s, savingSettings = False, selectionMeta = [],
      messagesRef = []\<rparr>"

text \<open>Inputs on which the properties below are exercised.\<close>

definition exampleEnv :: Env where
  "exampleEnv =
     \<lparr>userId = ascii ''id-1'', userNow = 1000, assistantId = ascii ''id-2'',
      assistantNow = 1001\<rparr>"

definition configuredSettings :: AiSettings where
  "configuredSettings =
     \<lparr>apiKey = ascii ''k'', baseUrl = ascii ''https://x'', includeContextByDefault = True\<rparr>"

definition slashSettings :: AiSettings where
  "slashSettings =
     \<lparr>apiKey = ascii ''k'', baseUrl = ascii ''https://x/'', includeContextByDefault = True\<rparr>"

definition hello :: jsstring where
  "hello = ascii ''hello''"

definition earlier :: ChatMessage where
  "earlier =
     \<lparr>msg_id = ascii ''id-0'', role = Assistant, content = JStr (ascii ''ok''),
      createdAt = 999, usingContext = False\<rparr>"

definition busyState :: AppState where
  "busyState =
     (initialState configuredSettings)
       \<lparr>messages := [earlier, earlier, earlier, earlier, earlier, earlier],
        messagesRef := [earlier, earlier, earlier, earlier, earlier, earlier]\<rparr>"

definition tipState :: AppState where
  "tipState =
     (initialState defaultSettings)
       \<lparr>tooltip := Some \<lparr>tt_text = ascii '' hello '', tt_x = 10, tt_y = 20\<rparr>\<rparr>"

definition hiReply :: jsval where
  "hiReply = JObj [(ascii ''reply'', JStr (ascii ''hi''))]"

definition emptyReply :: jsval where
  "emptyReply = JObj [(ascii ''reply'', JStr []), (ascii ''message'', JStr (ascii ''m''))]"

section \<open>Auxiliary facts\<close>

lemma contextPayloadOf_iff: "(contextPayloadOf st \<noteq> None) = usingContextOf st"
  by (auto simp: contextPayloadOf_def usingContextOf_def split: option.splits)

lemma handleSend_start_prompt:
  assumes "promptOf rawText st \<noteq> []"
  shows "handleSend_start env rawText st =
     (if effectiveApiKey st \<noteq> [] \<and> effectiveBaseUrl st \<noteq> []
      then Awaiting
             (st\<lparr>messages := messages st @ [userMessageOf env (promptOf rawText st) st],
                 input := [], isSending := True, sidebarOpen := True\<rparr>)
             (requestOf (effectiveApiKey st) (effectiveBaseUrl st)
                (payloadOf env (promptOf rawText st) st))
             (usingContextOf st)
      else Completed
             (appendAssistant env (JStr notConfigured) (usingContextOf st)
                (st\<lparr>messages := messages st @ [userMessageOf env (promptOf rawText st) st],
                    input := [], isSending := True, sidebarOpen := True\<rparr>)))"
proof -
  have "contextPayload (payloadOf env (promptOf rawText st) st) = contextPayloadOf st"
    by (simp add: payloadOf_def)
  then show ?thesis
    using assms contextPayloadOf_iff [of st]
    by (simp add: handleSend_start_def Let_def del: not_None_eq)
qed

lemma handleSend_start_empty:
  "promptOf rawText st = [] \<Longrightarrow> handleSend_start env rawText st = EarlyReturn"
  by (simp add: handleSend_start_def)

lemma length_slice_last6: "length (slice (- 6) xs) \<le> 6"
  by (simp add: slice_def Let_def)

lemma slice_last6_snoc:
  "slice (- 6) (xs @ [x]) \<noteq> [] \<and> last (slice (- 6) (xs @ [x])) = x"
  by (auto simp add: slice_def Let_def max_def)

lemma handleSend_requests:
  "snd (handleSend fetch env rawText st) =
     (if promptOf rawText st \<noteq> [] \<and> effectiveApiKey st \<noteq> [] \<and> effectiveBaseUrl st \<noteq> []
      then [requestOf (effectiveApiKey st) (effectiveBaseUrl st)
              (payloadOf env (promptOf rawText st) st)]
      else [])"
proof (cases "promptOf rawText st = []")
  case True
  then show ?thesis by (simp add: handleSend_def handleSend_start_empty)
next
  case False
  then show ?thesis by (simp add: handleSend_def handleSend_start_prompt)
qed

lemma handleSend_unconfigured:
  assumes "promptOf rawText st \<noteq> []" and "effectiveApiKey st = [] \<or> effectiveBaseUrl st = []"
  shows "handleSend fetch env rawText st =
     (appendAssistant env (JStr notConfigured) (usingContextOf st)
        (st\<lparr>messages := messages st @ [userMessageOf env (promptOf rawText st) st],
            input := [], isSending := True, sidebarOpen := True\<rparr>), [])"
  using assms by (auto simp add: handleSend_def handleSend_start_prompt)

lemma handleSend_configured:
  assumes "promptOf rawText st \<noteq> []" and "effectiveApiKey st \<noteq> []" and "effectiveBaseUrl st \<noteq> []"
  shows "handleSend fetch env rawText st =
     (handleSend_resume env
        (fetch (requestOf (effectiveApiKey st) (effectiveBaseUrl st)
                  (payloadOf env (promptOf rawText st) st)))
        (usingContextOf st)
        (st\<lparr>messages := messages st @ [userMessageOf env (promptOf rawText st) st],
            input := [], isSending := True, sidebarOpen := True\<rparr>),
      [requestOf (effectiveApiKey st) (effectiveBaseUrl st)
         (payloadOf env (promptOf rawText st) st)])"
  using assms by (simp add: handleSend_def handleSend_start_prompt)

lemma replyContent_cases:
  "replyContent data =
     (case optField data (ascii ''reply'') of
        Some r \<Rightarrow>
          if truthy r then r
          else (case optField data (ascii ''message'') of
                  Some m \<Rightarrow> if truthy m then m else JStr placeholder
                | None \<Rightarrow> JStr placeholder)
      | None \<Rightarrow>
          (case optField data (ascii ''message'') of
             Some m \<Rightarrow> if truthy m then m else JStr placeholder
           | None \<Rightarrow> JStr placeholder))"
  by (simp add: replyContent_def orValue_def placeholder_def split: option.splits)

lemma messages_resume:
  "messages (handleSend_resume env outcome ctx st) =
     messages st @
       [\<lparr>msg_id = assistantId env, role = Assistant, content = assistantContentOf outcome,
         createdAt = assistantNow env, usingContext = ctx\<rparr>]"
  by (simp add: handleSend_resume_def appendAssistant_def)

lemma assistantContentOf_ok:
  "200 \<le> status \<Longrightarrow> status \<le> 299 \<Longrightarrow>
   assistantContentOf (Response status (Json data)) = replyContent data"
  by (simp add: assistantContentOf_def)

lemma messages_after_send:
  assumes "promptOf rawText st \<noteq> []"
  shows "\<exists>a. messages (fst (handleSend fetch env rawText st)) =
            messages st @ [userMessageOf env (promptOf rawText st) st, a]
          \<and> role a = Assistant"
proof (cases "effectiveApiKey st \<noteq> [] \<and> effectiveBaseUrl st \<noteq> []")
  case True
  then have k: "effectiveApiKey st \<noteq> []" and b: "effectiveBaseUrl st \<noteq> []" by simp_all
  show ?thesis
    unfolding handleSend_configured [OF assms k b] by (simp add: messages_resume)
next
  case False
  then have u: "effectiveApiKey st = [] \<or> effectiveBaseUrl st = []" by simp
  show ?thesis
    unfolding handleSend_unconfigured [OF assms u] by (simp add: appendAssistant_def)
qed

lemma trim_Cons_nonempty: "\<not> isWhiteSpace c \<Longrightarrow> trim (c # s) \<noteq> []"
proof -
  assume c: "\<not> isWhiteSpace c"
  have "dropWhile isWhiteSpace (rev s @ [c]) \<noteq> []"
    using c by (simp add: dropWhile_append)
  then show ?thesis using c by (simp add: trim_def trimStart_def trimEnd_def)
qed

lemma trimEnd_last: "trimEnd s \<noteq> [] \<Longrightarrow> \<not> isWhiteSpace (last (trimEnd s))"
proof -
  assume ne: "trimEnd s \<noteq> []"
  then have d: "dropWhile isWhiteSpace (rev s) \<noteq> []" by (simp add: trimEnd_def)
  then have "\<not> isWhiteSpace (hd (dropWhile isWhiteSpace (rev s)))" by (rule hd_dropWhile)
  with d show ?thesis by (simp add: trimEnd_def last_rev)
qed

lemma trim_last: "trim s \<noteq> [] \<Longrightarrow> \<not> isWhiteSpace (last (trim s))"
  unfolding trim_def by (rule trimEnd_last)

lemma trimEnd_id: "s \<noteq> [] \<Longrightarrow> \<not> isWhiteSpace (last s) \<Longrightarrow> trimEnd s = s"
proof -
  assume "s \<noteq> []" and "\<not> isWhiteSpace (last s)"
  then have "dropWhile isWhiteSpace (rev s) = rev s"
    by (cases "rev s") (auto simp add: last_rev hd_rev [symmetric])
  then show ?thesis by (simp add: trimEnd_def)
qed

lemma trim_id:
  "\<not> isWhiteSpace c \<Longrightarrow> \<not> isWhiteSpace (last (c # s)) \<Longrightarrow> trim (c # s) = c # s"
  by (simp add: trim_def trimStart_def trimEnd_id)

lemma translateTemplate_hd: "translateTemplate @ s = 0x8BF7 # tl translateTemplate @ s"
  by (simp add: translateTemplate_def)

lemma not_ws_8BF7: "\<not> isWhiteSpace 0x8BF7"
  by (simp add: isWhiteSpace_def whiteSpace_def)

lemma trim_translate_nonempty: "trim (translateTemplate @ s) \<noteq> []"
  unfolding translateTemplate_hd using not_ws_8BF7 by (simp add: trim_Cons_nonempty)

lemma trim_translate_id:
  assumes "s \<noteq> []" and "\<not> isWhiteSpace (last s)"
  shows "trim (translateTemplate @ s) = translateTemplate @ s"
proof -
  have l: "last (0x8BF7 # tl translateTemplate @ s) = last s"
    using assms(1) by simp
  have "\<not> isWhiteSpace (last (0x8BF7 # tl translateTemplate @ s))"
    unfolding l by (rule assms(2))
  with not_ws_8BF7
  have "trim (0x8BF7 # tl translateTemplate @ s) = 0x8BF7 # tl translateTemplate @ s"
    by (rule trim_id)
  then show ?thesis by (simp only: translateTemplate_hd)
qed

lemma state_after_send:
  "sidebarOpen (fst (handleSend fetch env (Some p) st)) = (promptOf (Some p) st \<noteq> [] \<or> sidebarOpen st)
   \<and> tooltip (fst (handleSend fetch env (Some p) st)) = tooltip st"
proof (cases "promptOf (Some p) st = []")
  case True
  then show ?thesis by (simp add: handleSend_def handleSend_start_empty)
next
  case False
  then show ?thesis
    by (simp add: handleSend_def handleSend_start_prompt handleSend_resume_def
        appendAssistant_def)
qed

lemma slash_chat: "ascii ''//chat'' = slash # ascii ''/chat''"
  by (simp add: ascii_def slash_def)

lemma url_requestOf: "url (requestOf key base payload) = stripTrailingSlash base @ ascii ''/chat''"
  by (simp add: requestOf_def)

lemma trim_hello: "trim hello = hello"
  by (simp add: hello_def trim_def trimStart_def trimEnd_def isWhiteSpace_def whiteSpace_def ascii_def)

lemma hello_nonempty: "hello \<noteq> []"
  by (simp add: hello_def ascii_def)

lemma prompt_hello: "promptOf (Some hello) st = hello"
  by (simp add: promptOf_def trim_hello)

lemma unconfigured_default:
  "effectiveApiKey (initialState defaultSettings) = []"
  by (simp add: effectiveApiKey_def initialState_def defaultSettings_def orString_def
      trim_def trimStart_def trimEnd_def)

lemma configured_key: "effectiveApiKey (initialState configuredSettings) = ascii ''k''"
  by (simp add: effectiveApiKey_def initialState_def configuredSettings_def orString_def
      trim_def trimStart_def trimEnd_def isWhiteSpace_def whiteSpace_def ascii_def)

lemma configured_base: "effectiveBaseUrl (initialState configuredSettings) = ascii ''https://x''"
  by (simp add: effectiveBaseUrl_def initialState_def configuredSettings_def orString_def
      trim_def trimStart_def trimEnd_def isWhiteSpace_def whiteSpace_def ascii_def)

lemma trim_blank: "trim (ascii ''   '') = []"
  by (simp add: trim_def trimStart_def trimEnd_def isWhiteSpace_def whiteSpace_def ascii_def)

lemma trim_tip: "trim (ascii '' hello '') = hello"
  by (simp add: hello_def trim_def trimStart_def trimEnd_def isWhiteSpace_def whiteSpace_def
      ascii_def)

lemma slash_key: "effectiveApiKey (initialState slashSettings) = ascii ''k''"
  by (simp add: effectiveApiKey_def initialState_def slashSettings_def orString_def
      trim_def trimStart_def trimEnd_def isWhiteSpace_def whiteSpace_def ascii_def)

lemma slash_base:
  "effectiveBaseUrl (initialState slashSettings) = ascii ''https://x'' @ [slash]"
  by (simp add: effectiveBaseUrl_def initialState_def slashSettings_def orString_def
      trim_def trimStart_def trimEnd_def isWhiteSpace_def whiteSpace_def ascii_def slash_def)

lemma busy_key: "effectiveApiKey busyState = ascii ''k''"
  using configured_key by (simp add: busyState_def effectiveApiKey_def)

lemma busy_base: "effectiveBaseUrl busyState = ascii ''https://x''"
  using configured_base by (simp add: busyState_def effectiveBaseUrl_def)

section \<open>Properties of the settings store\<close>

lemma storage_get_after_set_updater:
  "fst (storage_get (storage_set (Updater f) st)) = f (fst (storage_get st))"
  by (simp add: storage_set_def storage_get_def)

lemma spread_allKeys: "spread current (allKeys s) = s"
  by (simp add: spread_def allKeys_def)

text \<open>
  C1: for every prior settings record and every partial update, \<^verbatim>\<open>update\<close> followed by
  \<^verbatim>\<open>get\<close> returns the prior settings with exactly the keys present in the update
  overwritten by the update's values, and every other field unchanged.
\<close>

theorem C1_update_then_get:
  "apiKey (fst (storage_get (update U st))) =
     (case p_apiKey U of Some v \<Rightarrow> v | None \<Rightarrow> apiKey (fst (storage_get st)))
   \<and> baseUrl (fst (storage_get (update U st))) =
     (case p_baseUrl U of Some v \<Rightarrow> v | None \<Rightarrow> baseUrl (fst (storage_get st)))
   \<and> includeContextByDefault (fst (storage_get (update U st))) =
     (case p_includeContextByDefault U of Some v \<Rightarrow> v
      | None \<Rightarrow> includeContextByDefault (fst (storage_get st)))"
  unfolding update_def storage_get_after_set_updater
  by (simp add: spread_def)

text \<open>
  C4: \<^verbatim>\<open>reset\<close> followed by \<^verbatim>\<open>get\<close> returns exactly the default record, with an
  empty API key, an empty base URL and context inclusion switched on, whatever the
  settings were before.
\<close>

theorem C4_reset_then_get:
  "fst (storage_get (reset st)) = defaultSettings
   \<and> defaultSettings = \<lparr>apiKey = [], baseUrl = [], includeContextByDefault = True\<rparr>"
  by (simp add: reset_def storage_set_def storage_get_def spread_allKeys defaultSettings_def)

section \<open>Properties of the sidebar\<close>

text \<open>
  C2: a send whose effective API key or effective base URL is the empty string performs
  no fetch, and appends the fixed not-configured assistant message right after the user
  message. The send is one that has a prompt: the trimmed text is not empty.
\<close>

theorem C2_not_configured:
  assumes "promptOf rawText st \<noteq> []"
    and "effectiveApiKey st = [] \<or> effectiveBaseUrl st = []"
  shows "snd (handleSend fetch env rawText st) = []
     \<and> messages (fst (handleSend fetch env rawText st)) =
         messages st @
           [\<lparr>msg_id = userId env, role = User, content = JStr (promptOf rawText st),
             createdAt = userNow env, usingContext = usingContextOf st\<rparr>,
            \<lparr>msg_id = assistantId env, role = Assistant, content = JStr notConfigured,
             createdAt = assistantNow env, usingContext = usingContextOf st\<rparr>]"
  by (simp add: handleSend_unconfigured [OF assms] appendAssistant_def userMessageOf_def)

text \<open>
  The scenario of the spec: with the default settings, sending \<^verbatim>\<open>hello\<close> from the
  initial state leaves the user message followed by the not-configured reply, and no
  request.
\<close>

theorem C2_not_configured_witness:
  "snd (handleSend (\<lambda>_. Rejected []) exampleEnv (Some hello) (initialState defaultSettings)) = []
   \<and> messages (fst (handleSend (\<lambda>_. Rejected []) exampleEnv (Some hello)
        (initialState defaultSettings))) =
       [\<lparr>msg_id = ascii ''id-1'', role = User, content = JStr hello, createdAt = 1000,
         usingContext = False\<rparr>,
        \<lparr>msg_id = ascii ''id-2'', role = Assistant, content = JStr notConfigured,
         createdAt = 1001, usingContext = False\<rparr>]"
proof -
  let ?st = "initialState defaultSettings"
  have p: "promptOf (Some hello) ?st \<noteq> []" by (simp add: prompt_hello hello_nonempty)
  have k: "effectiveApiKey ?st = [] \<or> effectiveBaseUrl ?st = []"
    by (simp add: unconfigured_default)
  have m: "messages ?st = []" and c: "usingContextOf ?st = False"
    by (simp_all add: initialState_def usingContextOf_def)
  show ?thesis
    using C2_not_configured [OF p k, of "\<lambda>_. Rejected []" exampleEnv]
    by (simp add: prompt_hello m c exampleEnv_def)
qed

text \<open>
  C3: whatever the message list and the prompt, the history of every request that
  \<^verbatim>\<open>handleSend\<close> issues has at most six entries, and its last entry is the user message
  of the prompt just sent.
\<close>

theorem C3_history:
  assumes "req \<in> set (snd (handleSend fetch env rawText st))"
  shows "length (history (body req)) \<le> 6
     \<and> history (body req) \<noteq> []
     \<and> last (history (body req)) = \<lparr>h_role = User, h_content = JStr (promptOf rawText st)\<rparr>"
proof -
  let ?p = "promptOf rawText st"
  let ?u = "userMessageOf env ?p st"
  from assms have req: "req = requestOf (effectiveApiKey st) (effectiveBaseUrl st) (payloadOf env ?p st)"
    by (simp add: handleSend_requests split: if_splits)
  have h: "history (body req) =
      map (\<lambda>m. \<lparr>h_role = role m, h_content = content m\<rparr>) (slice (- 6) (messagesRef st @ [?u]))"
    by (simp add: req requestOf_def payloadOf_def)
  have len: "length (history (body req)) \<le> 6"
    by (simp add: h length_slice_last6)
  have ne: "slice (- 6) (messagesRef st @ [?u]) \<noteq> []"
    and la: "last (slice (- 6) (messagesRef st @ [?u])) = ?u"
    using slice_last6_snoc [of "messagesRef st" ?u] by simp_all
  have "last (history (body req)) = \<lparr>h_role = role ?u, h_content = content ?u\<rparr>"
    by (simp add: h last_map ne la)
  then have "last (history (body req)) = \<lparr>h_role = User, h_content = JStr ?p\<rparr>"
    by (simp add: userMessageOf_def)
  with len ne h show ?thesis by simp
qed

text \<open>With six earlier messages, the request carries six entries, the last one the prompt.\<close>

theorem C3_history_witness:
  "snd (handleSend (\<lambda>_. Rejected []) exampleEnv (Some hello) busyState) =
     [requestOf (ascii ''k'') (ascii ''https://x'') (payloadOf exampleEnv hello busyState)]
   \<and> length (history (payloadOf exampleEnv hello busyState)) = 6
   \<and> last (history (payloadOf exampleEnv hello busyState)) =
       \<lparr>h_role = User, h_content = JStr hello\<rparr>"
proof -
  let ?req = "requestOf (ascii ''k'') (ascii ''https://x'') (payloadOf exampleEnv hello busyState)"
  have r: "snd (handleSend (\<lambda>_. Rejected []) exampleEnv (Some hello) busyState) = [?req]"
    by (simp add: handleSend_requests prompt_hello hello_nonempty busy_key busy_base ascii_def)
  then have "?req \<in> set (snd (handleSend (\<lambda>_. Rejected []) exampleEnv (Some hello) busyState))"
    by simp
  from C3_history [OF this]
  have l: "last (history (body ?req)) = \<lparr>h_role = User, h_content = JStr hello\<rparr>"
    by (simp add: prompt_hello)
  have b: "body ?req = payloadOf exampleEnv hello busyState"
    by (simp add: requestOf_def)
  have n: "length (history (payloadOf exampleEnv hello busyState)) = 6"
    by (simp add: payloadOf_def slice_def busyState_def)
  from r l n show ?thesis by (simp add: b)
qed

text \<open>
  C5, as the claim states it, fails: a \<^verbatim>\<open>reply\<close> field that is present but falsy (the
  empty string) is passed over, and the content is the \<^verbatim>\<open>message\<close> field.
\<close>

theorem C5_empty_reply_counterexample:
  "optField emptyReply (ascii ''reply'') = Some (JStr [])
   \<and> messages (fst (handleSend (\<lambda>_. Response 200 (Json emptyReply)) exampleEnv (Some hello)
        (initialState configuredSettings))) =
       [\<lparr>msg_id = ascii ''id-1'', role = User, content = JStr hello, createdAt = 1000,
         usingContext = False\<rparr>,
        \<lparr>msg_id = ascii ''id-2'', role = Assistant, content = JStr (ascii ''m''),
         createdAt = 1001, usingContext = False\<rparr>]
   \<and> JStr (ascii ''m'') \<noteq> JStr []"
proof -
  let ?st = "initialState configuredSettings"
  have p: "promptOf (Some hello) ?st \<noteq> []" by (simp add: prompt_hello hello_nonempty)
  have k: "effectiveApiKey ?st \<noteq> []" by (simp add: configured_key ascii_def)
  have b: "effectiveBaseUrl ?st \<noteq> []" by (simp add: configured_base ascii_def)
  have f: "optField emptyReply (ascii ''reply'') = Some (JStr [])"
    and g: "optField emptyReply (ascii ''message'') = Some (JStr (ascii ''m''))"
    by (simp_all add: optField_def emptyReply_def ascii_def)
  have c: "assistantContentOf (Response 200 (Json emptyReply)) = JStr (ascii ''m'')"
    by (simp add: assistantContentOf_def replyContent_cases f g) (simp add: ascii_def)
  have m: "messages ?st = []" and u: "usingContextOf ?st = False"
    by (simp_all add: initialState_def usingContextOf_def)
  have "messages (fst (handleSend (\<lambda>_. Response 200 (Json emptyReply)) exampleEnv (Some hello) ?st)) =
       [\<lparr>msg_id = ascii ''id-1'', role = User, content = JStr hello, createdAt = 1000,
         usingContext = False\<rparr>,
        \<lparr>msg_id = ascii ''id-2'', role = Assistant, content = JStr (ascii ''m''),
         createdAt = 1001, usingContext = False\<rparr>]"
    unfolding handleSend_configured [OF p k b] fst_conv messages_resume c
    by (simp add: m u userMessageOf_def prompt_hello exampleEnv_def)
  moreover have "JStr (ascii ''m'') \<noteq> JStr []" by (simp add: ascii_def)
  ultimately show ?thesis using f by simp
qed

text \<open>
  C5, amended: for a successful response whose body parses to \<open>data\<close>, the content of the
  appended assistant message is the \<^verbatim>\<open>reply\<close> field when it is present and truthy
  (for a string: not empty), otherwise the \<^verbatim>\<open>message\<close> field when it is present and
  truthy, otherwise the generic placeholder.
\<close>

theorem C5_reply_or_message:
  assumes "promptOf rawText st \<noteq> []"
    and "effectiveApiKey st \<noteq> []" and "effectiveBaseUrl st \<noteq> []"
    and "fetch (requestOf (effectiveApiKey st) (effectiveBaseUrl st)
                  (payloadOf env (promptOf rawText st) st)) = Response status (Json data)"
    and "200 \<le> status" and "status \<le> 299"
  shows "\<exists>earlier a.
       messages (fst (handleSend fetch env rawText st)) = earlier @ [a]
     \<and> role a = Assistant
     \<and> content a =
         (case optField data (ascii ''reply'') of
            Some r \<Rightarrow>
              if truthy r then r
              else (case optField data (ascii ''message'') of
                      Some m \<Rightarrow> if truthy m then m else JStr placeholder
                    | None \<Rightarrow> JStr placeholder)
          | None \<Rightarrow>
              (case optField data (ascii ''message'') of
                 Some m \<Rightarrow> if truthy m then m else JStr placeholder
               | None \<Rightarrow> JStr placeholder))"
proof -
  have "assistantContentOf (Response status (Json data)) = replyContent data"
    using assms(5,6) by (rule assistantContentOf_ok)
  then show ?thesis
    unfolding handleSend_configured [OF assms(1-3)] assms(4) fst_conv messages_resume
    by (simp add: replyContent_cases)
qed

text \<open>The scenario of the spec: the response \<^verbatim>\<open>{reply: "hi"}\<close> gives the content \<^verbatim>\<open>hi\<close>.\<close>

theorem C5_reply_or_message_witness:
  "\<exists>before a.
      messages (fst (handleSend (\<lambda>_. Response 200 (Json hiReply)) exampleEnv (Some hello)
        (initialState configuredSettings))) = before @ [a]
    \<and> role a = Assistant \<and> content a = JStr (ascii ''hi'')"
proof -
  let ?st = "initialState configuredSettings"
  have p: "promptOf (Some hello) ?st \<noteq> []" by (simp add: prompt_hello hello_nonempty)
  have k: "effectiveApiKey ?st \<noteq> []" by (simp add: configured_key ascii_def)
  have b: "effectiveBaseUrl ?st \<noteq> []" by (simp add: configured_base ascii_def)
  have f: "optField hiReply (ascii ''reply'') = Some (JStr (ascii ''hi''))"
    by (simp add: optField_def hiReply_def ascii_def)
  have t: "ascii ''hi'' \<noteq> []" by (simp add: ascii_def)
  have s: "(200::nat) \<le> 200" "(200::nat) \<le> 299" by simp_all
  show ?thesis
    using C5_reply_or_message
      [where fetch = "\<lambda>_. Response 200 (Json hiReply)" and env = exampleEnv, OF p k b refl s]
    by (simp add: f t)
qed

text \<open>
  C6: a call of \<^verbatim>\<open>handleSend\<close> with a non-empty prompt appends exactly one user message
  and then exactly one assistant message to the messages it finds, which it neither
  removes nor reorders: the list grows by exactly two entries. The same holds of the two
  halves of a call that waits for the network: the first half appends the user message,
  and the second appends the assistant message to whatever the list has become.
\<close>

theorem C6_two_messages:
  assumes "promptOf rawText st \<noteq> []"
  shows "(\<exists>u a. messages (fst (handleSend fetch env rawText st)) = messages st @ [u, a]
            \<and> role u = User \<and> content u = JStr (promptOf rawText st) \<and> role a = Assistant)
     \<and> length (messages (fst (handleSend fetch env rawText st))) = length (messages st) + 2
     \<and> (case handleSend_start env rawText st of
          EarlyReturn \<Rightarrow> False
        | Completed st' \<Rightarrow>
            (\<exists>u a. messages st' = messages st @ [u, a] \<and> role u = User \<and> role a = Assistant)
        | Awaiting st' req ctx \<Rightarrow>
            (\<exists>u. messages st' = messages st @ [u] \<and> role u = User)
            \<and> (\<forall>later outcome. \<exists>a.
                  messages (handleSend_resume env outcome ctx later) = messages later @ [a]
                  \<and> role a = Assistant))"
proof (cases "effectiveApiKey st \<noteq> [] \<and> effectiveBaseUrl st \<noteq> []")
  case True
  then have k: "effectiveApiKey st \<noteq> []" and b: "effectiveBaseUrl st \<noteq> []" by simp_all
  show ?thesis
    unfolding handleSend_configured [OF assms k b] handleSend_start_prompt [OF assms]
    using True by (simp add: messages_resume userMessageOf_def)
next
  case False
  then have u: "effectiveApiKey st = [] \<or> effectiveBaseUrl st = []" by simp
  show ?thesis
    unfolding handleSend_unconfigured [OF assms u] handleSend_start_prompt [OF assms]
    using False by (auto simp add: appendAssistant_def userMessageOf_def)
qed

theorem C6_two_messages_witness:
  "length (messages (fst (handleSend (\<lambda>_. Rejected (ascii ''Failed to fetch'')) exampleEnv
     (Some hello) busyState))) = 8"
proof -
  have p: "promptOf (Some hello) busyState \<noteq> []" by (simp add: prompt_hello hello_nonempty)
  have "length (messages busyState) = 6" by (simp add: busyState_def)
  with C6_two_messages [OF p, of "\<lambda>_. Rejected (ascii ''Failed to fetch'')" exampleEnv]
  show ?thesis by simp
qed

text \<open>
  C7: with a visible tooltip holding the selected text \<open>T\<close>, the translate action sends
  the translation template followed by the trimmed \<open>T\<close> as the prompt, hides the tooltip
  and opens the sidebar. The user message that results holds that prompt.
\<close>

theorem C7_translate_action:
  assumes "tooltip st = Some t" and "tt_text t \<noteq> []"
  shows "onTooltipAction fetch env Translate st =
       handleSend fetch env (Some (translateTemplate @ trim (tt_text t)))
         (st\<lparr>sidebarOpen := True, tooltip := None\<rparr>)
     \<and> tooltip (fst (onTooltipAction fetch env Translate st)) = None
     \<and> sidebarOpen (fst (onTooltipAction fetch env Translate st)) = True
     \<and> (\<exists>u a. messages (fst (onTooltipAction fetch env Translate st)) = messages st @ [u, a]
            \<and> role u = User
            \<and> content u = JStr (trim (translateTemplate @ trim (tt_text t)))
            \<and> (trim (tt_text t) \<noteq> [] \<longrightarrow>
                 content u = JStr (translateTemplate @ trim (tt_text t))))"
proof -
  let ?st = "st\<lparr>sidebarOpen := True, tooltip := None\<rparr>"
  let ?p = "translateTemplate @ trim (tt_text t)"
  have eq: "onTooltipAction fetch env Translate st = handleSend fetch env (Some ?p) ?st"
    using assms by (simp add: onTooltipAction_def tooltipPrompt_def)
  have p: "promptOf (Some ?p) ?st = trim ?p" by (simp add: promptOf_def)
  have ne: "promptOf (Some ?p) ?st \<noteq> []" by (simp add: p trim_translate_nonempty)
  have fr: "tooltip (fst (handleSend fetch env (Some ?p) ?st)) = None"
    "sidebarOpen (fst (handleSend fetch env (Some ?p) ?st)) = True"
    using state_after_send [of fetch env ?p ?st] by simp_all
  have id: "trim (tt_text t) \<noteq> [] \<Longrightarrow> trim ?p = ?p"
    using trim_last [of "tt_text t"] by (simp add: trim_translate_id)
  obtain a where
    "messages (fst (handleSend fetch env (Some ?p) ?st)) =
       messages ?st @ [userMessageOf env (promptOf (Some ?p) ?st) ?st, a]"
    using messages_after_send [OF ne, of fetch env] by blast
  then obtain u where
    "messages (fst (handleSend fetch env (Some ?p) ?st)) = messages st @ [u, a]"
    "role u = User" "content u = JStr (trim ?p)"
    by (simp add: p userMessageOf_def)
  with id have "\<exists>u a. messages (fst (handleSend fetch env (Some ?p) ?st)) = messages st @ [u, a]
            \<and> role u = User \<and> content u = JStr (trim ?p)
            \<and> (trim (tt_text t) \<noteq> [] \<longrightarrow> content u = JStr ?p)"
    by auto
  with eq fr show ?thesis by simp
qed

theorem C7_translate_action_witness:
  "tooltip (fst (onTooltipAction (\<lambda>_. Rejected []) exampleEnv Translate tipState)) = None
   \<and> sidebarOpen (fst (onTooltipAction (\<lambda>_. Rejected []) exampleEnv Translate tipState)) = True
   \<and> (\<exists>u a. messages (fst (onTooltipAction (\<lambda>_. Rejected []) exampleEnv Translate tipState)) =
               [u, a]
          \<and> content u = JStr (translateTemplate @ hello))"
proof -
  let ?t = "\<lparr>tt_text = ascii '' hello '', tt_x = 10, tt_y = 20\<rparr>"
  have t: "tooltip tipState = Some ?t" by (simp add: tipState_def)
  have n: "tt_text ?t \<noteq> []" by (simp add: ascii_def)
  have m: "messages tipState = []" by (simp add: tipState_def initialState_def)
  show ?thesis
    using C7_translate_action [OF t n, of "\<lambda>_. Rejected []" exampleEnv]
    by (auto simp add: trim_tip hello_nonempty m)
qed

text \<open>
  C8: \<^verbatim>\<open>removeAttachment\<close> leaves the attachment list with exactly the entries of the
  given id removed and the others in their original order, and changes nothing else.
\<close>

theorem C8_removeAttachment:
  "attachments (removeAttachment i st) = filter (\<lambda>item. att_id item \<noteq> i) (attachments st)
   \<and> subseq (attachments (removeAttachment i st)) (attachments st)
   \<and> (\<forall>a. a \<in> set (attachments (removeAttachment i st)) \<longleftrightarrow>
            a \<in> set (attachments st) \<and> att_id a \<noteq> i)
   \<and> removeAttachment i st = st\<lparr>attachments := attachments (removeAttachment i st)\<rparr>"
  by (auto simp add: removeAttachment_def)

text \<open>
  C9: a call of \<^verbatim>\<open>handleSend\<close> whose prompt (the argument, or else the input box)
  trims to the empty string does nothing: no fetch, and the state, with its messages,
  input, sending flag, sidebar and attachments, is unchanged.
\<close>

theorem C9_empty_prompt_noop:
  assumes "promptOf rawText st = []"
  shows "handleSend fetch env rawText st = (st, [])
     \<and> snd (handleSend fetch env rawText st) = []
     \<and> messages (fst (handleSend fetch env rawText st)) = messages st
     \<and> input (fst (handleSend fetch env rawText st)) = input st
     \<and> isSending (fst (handleSend fetch env rawText st)) = isSending st
     \<and> sidebarOpen (fst (handleSend fetch env rawText st)) = sidebarOpen st
     \<and> attachments (fst (handleSend fetch env rawText st)) = attachments st"
  using assms by (simp add: handleSend_def handleSend_start_empty)

theorem C9_empty_prompt_noop_witness:
  "handleSend (\<lambda>_. Rejected []) exampleEnv (Some (ascii ''   '')) busyState = (busyState, [])
   \<and> handleSend (\<lambda>_. Rejected []) exampleEnv None busyState = (busyState, [])"
proof -
  have a: "promptOf (Some (ascii ''   '')) busyState = []"
    by (simp add: promptOf_def trim_blank)
  have b: "promptOf None busyState = []"
    by (simp add: promptOf_def busyState_def initialState_def trim_def trimStart_def
        trimEnd_def)
  show ?thesis
    using C9_empty_prompt_noop [OF a, of "\<lambda>_. Rejected []" exampleEnv]
      C9_empty_prompt_noop [OF b, of "\<lambda>_. Rejected []" exampleEnv]
    by simp
qed

text \<open>
  C10: when a request is issued, its URL is the effective base URL with at most one
  trailing slash removed, followed by \<^verbatim>\<open>/chat\<close>; a base URL that ends in a single slash
  gives no double slash before \<^verbatim>\<open>chat\<close>.
\<close>

theorem C10_chat_url:
  assumes "promptOf rawText st \<noteq> []"
    and "effectiveApiKey st \<noteq> []" and "effectiveBaseUrl st \<noteq> []"
  shows "\<exists>req. snd (handleSend fetch env rawText st) = [req]
     \<and> (\<forall>p. effectiveBaseUrl st = p @ [slash] \<longrightarrow> url req = p @ ascii ''/chat'')
     \<and> (last (effectiveBaseUrl st) \<noteq> slash \<longrightarrow> url req = effectiveBaseUrl st @ ascii ''/chat'')
     \<and> (\<forall>p. effectiveBaseUrl st = p @ [slash] \<and> \<not> suffix [slash] p \<longrightarrow>
            \<not> suffix (ascii ''//chat'') (url req))"
proof -
  let ?b = "effectiveBaseUrl st"
  let ?req = "requestOf (effectiveApiKey st) ?b (payloadOf env (promptOf rawText st) st)"
  have r: "snd (handleSend fetch env rawText st) = [?req]"
    using assms by (simp add: handleSend_requests)
  have u: "url ?req = stripTrailingSlash ?b @ ascii ''/chat''"
    by (rule url_requestOf)
  have a: "\<forall>p. ?b = p @ [slash] \<longrightarrow> url ?req = p @ ascii ''/chat''"
  proof (intro allI impI)
    fix p
    assume e: "?b = p @ [slash]"
    then show "url ?req = p @ ascii ''/chat''"
      by (simp add: url_requestOf stripTrailingSlash_def)
  qed
  have b: "last ?b \<noteq> slash \<longrightarrow> url ?req = ?b @ ascii ''/chat''"
    by (simp add: u stripTrailingSlash_def)
  have c: "\<forall>p. ?b = p @ [slash] \<and> \<not> suffix [slash] p \<longrightarrow> \<not> suffix (ascii ''//chat'') (url ?req)"
  proof (intro allI impI notI, elim conjE)
    fix p
    assume e: "?b = p @ [slash]" and n: "\<not> suffix [slash] p"
      and s: "suffix (ascii ''//chat'') (url ?req)"
    from a e have "url ?req = p @ ascii ''/chat''" by simp
    with s obtain zs where "p @ ascii ''/chat'' = (zs @ [slash]) @ ascii ''/chat''"
      by (auto simp add: suffix_def slash_chat)
    then have "p = zs @ [slash]" by (simp only: append_same_eq)
    with n show False by (simp add: suffix_def)
  qed
  from r a b c show ?thesis by blast
qed

theorem C10_chat_url_witness:
  "\<exists>req. snd (handleSend (\<lambda>_. Rejected []) exampleEnv (Some hello) (initialState slashSettings)) =
           [req]
        \<and> url req = ascii ''https://x/chat''"
proof -
  let ?st = "initialState slashSettings"
  have p: "promptOf (Some hello) ?st \<noteq> []" by (simp add: prompt_hello hello_nonempty)
  have k: "effectiveApiKey ?st \<noteq> []" by (simp add: slash_key ascii_def)
  have b: "effectiveBaseUrl ?st \<noteq> []" by (simp add: slash_base)
  have e: "ascii ''https://x'' @ ascii ''/chat'' = ascii ''https://x/chat''"
    by (simp add: ascii_def)
  show ?thesis
    using C10_chat_url [OF p k b, of "\<lambda>_. Rejected []" exampleEnv]
    by (auto simp add: slash_base e)
qed

end
